theory Spec2Isabelle
  imports Complex_Main
begin

section \<open>Python values\<close>

text \<open>
  The repository is Python.  Its \<open>int\<close> is unbounded and is modelled by \<open>int\<close>; \<open>//\<close> on
  \<open>int\<close> is floor division, which is \<open>div\<close> on \<open>int\<close>.  Its \<open>float\<close> is modelled by the exact
  reals: every result below that goes through a \<open>float\<close> is a statement about the formula
  the code computes, not about the rounding or the range of IEEE doubles.  \<open>int(x)\<close> on a
  float truncates towards zero.  A division whose divisor is zero raises
  \<open>ZeroDivisionError\<close>; it is the only exception the modelled arithmetic can raise.
\<close>

datatype py_error = ZeroDivisionError

definition py_int :: "real \<Rightarrow> int" where
  "py_int x = (if 0 \<le> x then \<lfloor>x\<rfloor> else \<lceil>x\<rceil>)"

definition digit_char :: "nat \<Rightarrow> char" where
  "digit_char d =
     (if d = 0 then CHR ''0'' else if d = 1 then CHR ''1'' else if d = 2 then CHR ''2''
      else if d = 3 then CHR ''3'' else if d = 4 then CHR ''4'' else if d = 5 then CHR ''5''
      else if d = 6 then CHR ''6'' else if d = 7 then CHR ''7'' else if d = 8 then CHR ''8''
      else CHR ''9'')"

function str_nat :: "nat \<Rightarrow> string" where
  "str_nat n = (if n < 10 then [digit_char n] else str_nat (n div 10) @ [digit_char (n mod 10)])"
  by pat_completeness auto
termination
  by (relation "measure (\<lambda>n. n)") auto

declare str_nat.simps [simp del]

definition str_int :: "int \<Rightarrow> string" where
  "str_int i = (if i < 0 then CHR ''-'' # str_nat (nat (- i)) else str_nat (nat i))"

section \<open>src/core/transaction\_builder.py\<close>

type_synonym pubkey = string
type_synonym blockhash = string

record account_meta =
  meta_pubkey :: pubkey
  is_signer :: bool
  is_writable :: bool

record instruction =
  program_id :: pubkey
  accounts :: "account_meta list"
  data :: "nat list"

record versioned_transaction =
  instructions :: "instruction list"
  payer :: pubkey
  blockhash :: blockhash
  signers :: "pubkey list"

text \<open>
  \<open>TransactionBuilder\<close>: the wallet keypair is represented by its public key, and a signed
  transaction lists the public keys that signed it.
\<close>

record TransactionBuilder =
  wallet_pubkey :: pubkey
  RAYDIUM_AMM_PROGRAM :: pubkey
  TOKEN_PROGRAM :: pubkey

definition init_builder :: "pubkey \<Rightarrow> TransactionBuilder" where
  "init_builder wallet =
     \<lparr>wallet_pubkey = wallet,
      RAYDIUM_AMM_PROGRAM = ''5quBtoiQqxF9Jv6KYKctB59NT3gtJD2N1RdgFZRnTMK'',
      TOKEN_PROGRAM = ''TokenkegQfeZyiNwAJbNbGKPFXCWuBvf9Ss623VQ5DA''\<rparr>"

text \<open>
  \<open>_encode_swap_instruction\<close>: \<open>struct.pack("<BQQ", 9, amount_in, minimum_amount_out)\<close>,
  one byte and two unsigned 64-bit little-endian integers.  \<open>struct.pack\<close> raises
  \<open>struct.error\<close> for a value outside \<open>0 .. 2^64 - 1\<close>; that is the result \<open>None\<close>.
\<close>

definition le_bytes :: "nat \<Rightarrow> int \<Rightarrow> nat list" where
  "le_bytes k v = map (\<lambda>i. nat ((v div 256 ^ i) mod 256)) [0..<k]"

definition encode_swap_instruction :: "int \<Rightarrow> int \<Rightarrow> nat list option" where
  "encode_swap_instruction amount_in minimum_amount_out =
     (let instruction_type = 9 in
      if 0 \<le> amount_in \<and> amount_in < 2 ^ 64 \<and> 0 \<le> minimum_amount_out \<and> minimum_amount_out < 2 ^ 64
      then Some (instruction_type # le_bytes 8 amount_in @ le_bytes 8 minimum_amount_out)
      else None)"

text \<open>
  \<open>build_raydium_swap\<close>: the whole body is inside \<open>try ... except Exception: return None\<close>,
  so a failed encoding gives \<open>None\<close>.  The constructors of the Solana library are taken to
  succeed.
\<close>

definition build_raydium_swap ::
  "TransactionBuilder \<Rightarrow> pubkey \<Rightarrow> pubkey \<Rightarrow> pubkey \<Rightarrow> int \<Rightarrow> int \<Rightarrow> blockhash
     \<Rightarrow> versioned_transaction option" where
  "build_raydium_swap self pool_id token_in_mint token_out_mint amount_in minimum_amount_out
       recent_blockhash =
     (case encode_swap_instruction amount_in minimum_amount_out of
        None \<Rightarrow> None
      | Some instruction_data \<Rightarrow>
          let accs =
                [\<lparr>meta_pubkey = wallet_pubkey self, is_signer = True, is_writable = True\<rparr>,
                 \<lparr>meta_pubkey = pool_id, is_signer = False, is_writable = True\<rparr>,
                 \<lparr>meta_pubkey = token_in_mint, is_signer = False, is_writable = False\<rparr>,
                 \<lparr>meta_pubkey = token_out_mint, is_signer = False, is_writable = False\<rparr>,
                 \<lparr>meta_pubkey = TOKEN_PROGRAM self, is_signer = False, is_writable = False\<rparr>];
              swap_instruction =
                \<lparr>program_id = RAYDIUM_AMM_PROGRAM self, accounts = accs, data = instruction_data\<rparr>
          in Some \<lparr>instructions = [swap_instruction], payer = wallet_pubkey self,
                   blockhash = recent_blockhash, signers = [wallet_pubkey self]\<rparr>)"

text \<open>
  \<open>calculate_swap_amounts\<close>.  The four divisions are taken in the order of the source:
  the floor division for \<open>amount_out\<close>, \<open>price_before\<close>, \<open>price_after\<close>, \<open>price_impact\<close>.
\<close>

definition default_fee_rate :: real where
  "default_fee_rate = 25 / 10000"

definition calculate_swap_amounts :: "int \<Rightarrow> int \<Rightarrow> int \<Rightarrow> real \<Rightarrow> py_error + (int \<times> real)" where
  "calculate_swap_amounts pool_liquidity_in pool_liquidity_out amount_in fee_rate =
    (let amount_in_after_fee = py_int (real_of_int amount_in * (1 - fee_rate)) in
     if pool_liquidity_in + amount_in_after_fee = 0 then Inl ZeroDivisionError else
     (let amount_out =
            (pool_liquidity_out * amount_in_after_fee) div (pool_liquidity_in + amount_in_after_fee) in
     if pool_liquidity_in = 0 then Inl ZeroDivisionError else
     (let price_before = real_of_int pool_liquidity_out / real_of_int pool_liquidity_in in
     if pool_liquidity_in + amount_in = 0 then Inl ZeroDivisionError else
     (let price_after =
            real_of_int (pool_liquidity_out - amount_out) / real_of_int (pool_liquidity_in + amount_in) in
     if price_before = 0 then Inl ZeroDivisionError else
     (let price_impact = \<bar>price_after - price_before\<bar> / price_before in
     Inr (amount_out, price_impact))))))"

text \<open>
  \<open>build_sandwich_transactions\<close>.  An exception of \<open>calculate_swap_amounts\<close> is not caught
  and leaves the function.  \<open>gas_cost_estimate\<close> is assigned and never read.
\<close>

definition build_sandwich_transactions ::
  "TransactionBuilder \<Rightarrow> string \<Rightarrow> pubkey \<Rightarrow> pubkey \<Rightarrow> pubkey \<Rightarrow> int \<Rightarrow> int \<Rightarrow> int \<Rightarrow> blockhash
     \<Rightarrow> py_error + (versioned_transaction option \<times> versioned_transaction option \<times> real)" where
  "build_sandwich_transactions self target_transaction pool_id token_in token_out
       pool_liquidity_in pool_liquidity_out target_amount_in recent_blockhash =
    (let front_run_amount = min (target_amount_in div 4) (pool_liquidity_in div 100) in
     (case calculate_swap_amounts pool_liquidity_in pool_liquidity_out front_run_amount
             default_fee_rate of
        Inl e \<Rightarrow> Inl e
      | Inr (front_run_output, front_run_impact) \<Rightarrow>
     (let new_liquidity_in = pool_liquidity_in + front_run_amount;
          new_liquidity_out = pool_liquidity_out - front_run_output in
     (case calculate_swap_amounts new_liquidity_in new_liquidity_out target_amount_in
             default_fee_rate of
        Inl e \<Rightarrow> Inl e
      | Inr (target_output, target_impact) \<Rightarrow>
     (let final_liquidity_in = new_liquidity_in + target_amount_in;
          final_liquidity_out = new_liquidity_out - target_output;
          back_run_amount = front_run_output in
     (case calculate_swap_amounts final_liquidity_out final_liquidity_in back_run_amount
             default_fee_rate of
        Inl e \<Rightarrow> Inl e
      | Inr (back_run_output, back_run_impact) \<Rightarrow>
     (let profit = back_run_output - front_run_amount;
          profit_percentage =
            (if front_run_amount > 0 then real_of_int profit / real_of_int front_run_amount else 0)
      in if profit_percentage < 1 / 100 then Inr (None, None, 0)
         else
           (let front_run_tx =
                  build_raydium_swap self pool_id token_in token_out front_run_amount
                    (py_int (real_of_int front_run_output * (98 / 100))) recent_blockhash;
                back_run_tx =
                  build_raydium_swap self pool_id token_out token_in back_run_amount
                    (py_int (real_of_int back_run_output * (98 / 100))) recent_blockhash
            in Inr (front_run_tx, back_run_tx, profit_percentage)))))))))"

text \<open>
  The bracket as section 4.4 of the specification words it, for comparison with the code:
  the front-run size is applied to the reserves, the target trade's size to the updated
  reserves, and the back-run, sized as exactly the amount the front-run leg acquired, to
  the twice-updated reserves, in the opposite direction.
\<close>

definition chained_bracket :: "int \<Rightarrow> int \<Rightarrow> int \<Rightarrow> int \<Rightarrow> py_error + (int \<times> int \<times> int)" where
  "chained_bracket reserveIn reserveOut frontRun targetAmountIn =
     (case calculate_swap_amounts reserveIn reserveOut frontRun default_fee_rate of
        Inl e \<Rightarrow> Inl e
      | Inr (acquired, _) \<Rightarrow>
     (case calculate_swap_amounts (reserveIn + frontRun) (reserveOut - acquired) targetAmountIn
             default_fee_rate of
        Inl e \<Rightarrow> Inl e
      | Inr (targetOut, _) \<Rightarrow>
     (case calculate_swap_amounts (reserveOut - acquired - targetOut)
             (reserveIn + frontRun + targetAmountIn) acquired default_fee_rate of
        Inl e \<Rightarrow> Inl e
      | Inr (backOut, _) \<Rightarrow> Inr (acquired, targetOut, backOut))))"


section \<open>src/core/rpc\_client.py\<close>

text \<open>
  \<open>RPCClientWrapper.get_balance\<close>.  The wrapped client is a parameter: for a public key
  it raises an exception (\<open>Inl\<close>) or answers with the balance in lamports (\<open>Inr\<close>).
  \<open>except Exception\<close> catches whatever was raised and the method returns \<open>0.0\<close>.
\<close>

definition get_balance :: "(pubkey \<Rightarrow> 'e + int) \<Rightarrow> pubkey \<Rightarrow> real" where
  "get_balance client pk =
     (case client pk of
        Inr balance_lamports \<Rightarrow> real_of_int balance_lamports / 1000000000
      | Inl e \<Rightarrow> 0)"

section \<open>config/settings.py, src/dex/raydium.py, src/core/mempool\_monitor.py\<close>

record Settings =
  MAX_SLIPPAGE :: real
  MIN_PROFIT_THRESHOLD :: real
  MAX_POSITION_SIZE :: real
  DEBUG_MODE :: bool
  DRY_RUN :: bool

record PoolInfo =
  pool_id :: string
  base_mint :: string
  quote_mint :: string
  base_symbol :: string
  quote_symbol :: string
  liquidity :: real
  volume_24h :: real
  price :: real

record PendingSwap =
  signature :: string
  user_wallet :: string
  token_in :: string
  token_out :: string
  amount_in :: real
  pool_address :: string
  estimated_price_impact :: real
  timestamp :: real

section \<open>src/core/sandwich\_engine.py\<close>

record SandwichOpportunity =
  pool_info :: "PoolInfo option"
  target_transaction :: string
  estimated_profit :: real
  front_run_amount :: real
  back_run_amount :: real
  gas_cost :: real
  confidence_score :: real

record SandwichResult =
  opportunity :: SandwichOpportunity
  front_run_signature :: "string option"
  back_run_signature :: "string option"
  actual_profit :: real
  execution_time :: real
  success :: bool
  error_message :: "string option"

text \<open>The dictionary \<open>self.stats\<close>, whose five keys are fixed in \<open>__init__\<close>.\<close>

record Stats =
  opportunities_detected :: int
  sandwiches_attempted :: int
  successful_sandwiches :: int
  total_profit :: real
  total_gas_spent :: real

record SandwichEngine =
  min_profit_threshold :: real
  max_slippage :: real
  max_position_size :: real
  stats :: Stats

definition init_engine :: "Settings \<Rightarrow> SandwichEngine" where
  "init_engine settings =
     \<lparr>min_profit_threshold = MIN_PROFIT_THRESHOLD settings,
      max_slippage = MAX_SLIPPAGE settings,
      max_position_size = MAX_POSITION_SIZE settings,
      stats = \<lparr>opportunities_detected = 0, sandwiches_attempted = 0, successful_sandwiches = 0,
               total_profit = 0, total_gas_spent = 0\<rparr>\<rparr>"

text \<open>
  \<open>_simulate_opportunity\<close>.  \<open>now\<close> is the value of \<open>time.time()\<close>.  The body is inside
  \<open>try ... except Exception\<close>, after which the method returns \<open>None\<close>: the division by
  \<open>pool.liquidity\<close> raises for a pool without liquidity.
\<close>

definition simulate_opportunity :: "SandwichEngine \<Rightarrow> PoolInfo \<Rightarrow> real \<Rightarrow> SandwichOpportunity option" where
  "simulate_opportunity self pool now =
     (let front_run_amount' = min (liquidity pool * (1 / 1000)) (max_position_size self) in
      if liquidity pool = 0 then None
      else
       (let estimated_slippage = front_run_amount' / liquidity pool * (5 / 10);
            estimated_profit' = front_run_amount' * estimated_slippage * (8 / 10);
            gas_cost' = 1 / 1000;
            confidence_score' =
              min (volume_24h pool / liquidity pool) (min (liquidity pool / 100000) 1) * 100;
            net_profit = estimated_profit' - gas_cost'
        in if net_profit > min_profit_threshold self
           then Some \<lparr>pool_info = Some pool,
                       target_transaction = ''simulated_tx_'' @ str_int (py_int now),
                       estimated_profit = estimated_profit',
                       front_run_amount = front_run_amount',
                       back_run_amount = front_run_amount',
                       gas_cost = gas_cost',
                       confidence_score = confidence_score'\<rparr>
           else None))"

text \<open>
  \<open>_simulate_sandwich_execution\<close>.  \<open>now\<close> is \<open>time.time()\<close>; \<open>r1\<close> and \<open>r2\<close> are the
  two draws of \<open>random.random()\<close>, the second made on success only.
\<close>

definition simulate_sandwich_execution ::
  "SandwichEngine \<Rightarrow> SandwichOpportunity \<Rightarrow> real \<Rightarrow> real \<Rightarrow> real \<Rightarrow> real
     \<Rightarrow> SandwichResult \<times> SandwichEngine" where
  "simulate_sandwich_execution self opp start_time now r1 r2 =
     (let execution_time' = now - start_time;
          success' = (r1 > 1 / 10);
          actual_profit' =
            (if success' then estimated_profit opp * (8 / 10 + r2 * (4 / 10)) else - gas_cost opp);
          st = stats self;
          st1 = (if success'
                 then st\<lparr>successful_sandwiches := successful_sandwiches st + 1,
                         total_profit := total_profit st + actual_profit'\<rparr>
                 else st);
          st2 = st1\<lparr>sandwiches_attempted := sandwiches_attempted st1 + 1,
                    total_gas_spent := total_gas_spent st1 + gas_cost opp\<rparr>
      in (\<lparr>opportunity = opp,
           front_run_signature = (if success' then Some ''simulated_front_run_tx'' else None),
           back_run_signature = (if success' then Some ''simulated_back_run_tx'' else None),
           actual_profit = actual_profit',
           execution_time = execution_time',
           success = success',
           error_message = (if success' then None else Some ''Simulated failure'')\<rparr>,
          self\<lparr>stats := st2\<rparr>))"

text \<open>\<open>_execute_real_sandwich\<close>: the placeholder of the real execution.\<close>

definition execute_real_sandwich ::
  "SandwichEngine \<Rightarrow> SandwichOpportunity \<Rightarrow> real \<Rightarrow> real \<Rightarrow> SandwichResult \<times> SandwichEngine" where
  "execute_real_sandwich self opp start_time now =
     (\<lparr>opportunity = opp,
       front_run_signature = None,
       back_run_signature = None,
       actual_profit = 0,
       execution_time = now - start_time,
       success = False,
       error_message = Some ''Real execution not implemented yet''\<rparr>,
      self)"

text \<open>\<open>execute_sandwich\<close>: \<open>start_time\<close> is its own reading of the clock.\<close>

definition execute_sandwich ::
  "Settings \<Rightarrow> SandwichEngine \<Rightarrow> SandwichOpportunity \<Rightarrow> real \<Rightarrow> real \<Rightarrow> real \<Rightarrow> real
     \<Rightarrow> SandwichResult \<times> SandwichEngine" where
  "execute_sandwich settings self opp start_time now r1 r2 =
     (if DRY_RUN settings then simulate_sandwich_execution self opp start_time now r1 r2
      else execute_real_sandwich self opp start_time now)"

text \<open>
  \<open>run_monitoring_loop\<close> calls \<open>execute_sandwich\<close> once in every cycle that found an
  opportunity.  \<open>execute_all\<close> is the effect of these calls on the engine, in order; each
  call has its own clock readings and random draws.
\<close>

fun execute_all ::
  "Settings \<Rightarrow> SandwichEngine \<Rightarrow> (SandwichOpportunity \<times> real \<times> real \<times> real \<times> real) list
     \<Rightarrow> SandwichResult list \<times> SandwichEngine" where
  "execute_all settings self [] = ([], self)"
| "execute_all settings self ((opp, start_time, now, r1, r2) # rest) =
     (let (res, self1) = execute_sandwich settings self opp start_time now r1 r2;
          (ress, self2) = execute_all settings self1 rest
      in (res # ress, self2))"

text \<open>
  \<open>_execute_simulated_sandwich\<close>, the execution on the mempool path.  \<open>t0\<close>, \<open>t1\<close>,
  \<open>t2\<close>, \<open>t3\<close> are the four readings of \<open>time.time()\<close> in the order of the source, \<open>r1\<close>
  and \<open>r2\<close> the draws of \<open>random.random()\<close>.
\<close>

definition execute_simulated_sandwich ::
  "Settings \<Rightarrow> SandwichEngine \<Rightarrow> PendingSwap \<Rightarrow> real \<Rightarrow> real \<Rightarrow> real \<Rightarrow> real \<Rightarrow> real \<Rightarrow> real \<Rightarrow> real
     \<Rightarrow> SandwichResult \<times> SandwichEngine" where
  "execute_simulated_sandwich settings self pending_swap expected_profit t0 t1 t2 t3 r1 r2 =
     (let start_time = t0;
          front_run_amount' = amount_in pending_swap * (25 / 100);
          back_run_amount' = front_run_amount';
          gas_cost' = 1 / 1000;
          front_sig = (if DRY_RUN settings then ''sim_front_'' @ str_int (py_int (t1 * 1000))
                       else ''real_front_'' @ str_int (py_int (t1 * 1000)));
          back_sig = (if DRY_RUN settings then ''sim_back_'' @ str_int (py_int (t2 * 1000))
                      else ''real_back_'' @ str_int (py_int (t2 * 1000)));
          success' = (r1 < 80 / 100);
          execution_time' = t3 - start_time;
          profit_variation = 8 / 10 + r2 * (4 / 10);
          actual_profit' =
            (if success' then expected_profit * profit_variation - gas_cost' else - gas_cost');
          error_msg =
            (if success' then None
             else Some ''Sandwich failed - target transaction reverted or price moved unfavorably'');
          st = stats self;
          st1 = (if success'
                 then st\<lparr>successful_sandwiches := successful_sandwiches st + 1,
                         total_profit := total_profit st + actual_profit'\<rparr>
                 else st);
          st2 = st1\<lparr>sandwiches_attempted := sandwiches_attempted st1 + 1,
                    total_gas_spent := total_gas_spent st1 + gas_cost'\<rparr>;
          opp = \<lparr>pool_info = None,
                 target_transaction = signature pending_swap,
                 estimated_profit = expected_profit,
                 front_run_amount = front_run_amount',
                 back_run_amount = back_run_amount',
                 gas_cost = gas_cost',
                 confidence_score = 75\<rparr>
      in (\<lparr>opportunity = opp,
           front_run_signature = (if success' then Some front_sig else None),
           back_run_signature = (if success' then Some back_sig else None),
           actual_profit = actual_profit',
           execution_time = execution_time',
           success = success',
           error_message = error_msg\<rparr>,
          self\<lparr>stats := st2\<rparr>))"

text \<open>
  \<open>_handle_real_opportunity\<close>, the callback of the mempool monitor.  The method returns
  nothing; the result of the execution it starts is kept here so that the opportunity it
  built can be inspected.  An exception raised after the execution (by the printing of the
  result) is caught by the method and leaves the statistics as the execution set them.
\<close>

definition handle_real_opportunity ::
  "Settings \<Rightarrow> SandwichEngine \<Rightarrow> PendingSwap \<Rightarrow> real \<Rightarrow> real \<Rightarrow> real \<Rightarrow> real \<Rightarrow> real \<Rightarrow> real
     \<Rightarrow> SandwichResult option \<times> SandwichEngine" where
  "handle_real_opportunity settings self pending_swap t0 t1 t2 t3 r1 r2 =
     (let st = stats self;
          self1 = self\<lparr>stats := st\<lparr>opportunities_detected := opportunities_detected st + 1\<rparr>\<rparr>;
          expected_profit = amount_in pending_swap * estimated_price_impact pending_swap * (5 / 10);
          gas_cost' = 1 / 1000;
          net_profit = expected_profit - gas_cost'
      in if net_profit > 1 / 10000
         then (let (result, self2) =
                     execute_simulated_sandwich settings self1 pending_swap expected_profit
                       t0 t1 t2 t3 r1 r2
               in (Some result, self2))
         else (None, self1))"

text \<open>
  The defaults of \<open>config/settings.py\<close> (used when the environment sets nothing) and the
  first mock pool of \<open>RaydiumDEX._get_devnet_mock_pools\<close>.
\<close>

definition default_settings :: Settings where
  "default_settings =
     \<lparr>MAX_SLIPPAGE = 5 / 100, MIN_PROFIT_THRESHOLD = 1 / 1000, MAX_POSITION_SIZE = 1,
      DEBUG_MODE = True, DRY_RUN = True\<rparr>"

definition mock_sol_usdc_pool :: PoolInfo where
  "mock_sol_usdc_pool =
     \<lparr>pool_id = ''mock_sol_usdc_pool'',
      base_mint = ''So11111111111111111111111111111111111111112'',
      quote_mint = ''EPjFWdd5AufqSSqeM2qN1xzybapC8G4wEGGkZwyTDt1v'',
      base_symbol = ''SOL'', quote_symbol = ''USDC'',
      liquidity = 1000000, volume_24h = 500000, price = 255 / 10\<rparr>"

section \<open>Facts about the Python values\<close>


lemma py_int_nonneg_ge: "0 \<le> x \<Longrightarrow> 0 \<le> py_int x"
  by (simp add: py_int_def)

lemma amount_out_less:
  assumes "0 < rin" "0 < rout" "0 \<le> e"
  shows "(rout * e) div (rin + e) < (rout::int)"
proof -
  have pos: "0 < real_of_int (rin + e)" using assms by simp
  have "real_of_int (rout * e) < real_of_int rout * real_of_int (rin + e)"
    using assms by (simp add: algebra_simps)
  then have "real_of_int (rout * e) / real_of_int (rin + e) < real_of_int rout"
    using pos by (simp add: pos_divide_less_eq)
  then have "\<lfloor>real_of_int (rout * e) / real_of_int (rin + e)\<rfloor> < rout"
    by (simp add: floor_less_iff)
  then show ?thesis by (simp only: floor_divide_of_int_eq)
qed

section \<open>The pricing quote\<close>




text \<open>
  Claim C6, as the specification states it: the quote fails with \<open>InvalidInput\<close> whenever
  \<open>amountIn \<le> 0\<close> or \<open>reserveIn + amountIn \<le> 0\<close>, fails on no other input, and never
  reaches a division by zero.  The code validates nothing.  An amount of 0 is quoted
  as \<open>(0, 0.0)\<close>; an input reserve of 0 with a positive amount, which the claim lets
  through, reaches the division \<open>pool_liquidity_out / pool_liquidity_in\<close> by zero.
\<close>

theorem quote_validation_counterexample:
  "calculate_swap_amounts 1000 1000 0 (25 / 10000) = Inr (0, 0) \<and>
   calculate_swap_amounts 0 1000 10 (25 / 10000) = Inl ZeroDivisionError"
  by (simp add: calculate_swap_amounts_def py_int_def Let_def)

text \<open>
  Claim C6, amended: the quote checks none of its arguments and has no \<open>InvalidInput\<close>
  error.  It fails exactly when one of its four divisors is zero, that is when
  \<open>reserveIn = 0\<close>, \<open>reserveOut = 0\<close>, \<open>reserveIn + amountIn = 0\<close> or \<open>reserveIn\<close> plus the
  truncated amount after the fee is 0, and it fails with \<open>ZeroDivisionError\<close>; on every
  other input, an amount \<open>\<le> 0\<close> included, it returns a quote.
\<close>

theorem quote_failure:
  "(calculate_swap_amounts rin rout ain fee = Inl ZeroDivisionError \<longleftrightarrow>
      (rin = 0 \<or> rout = 0 \<or> rin + ain = 0 \<or> rin + py_int (real_of_int ain * (1 - fee)) = 0)) \<and>
   ((\<exists>q. calculate_swap_amounts rin rout ain fee = Inr q) \<longleftrightarrow>
      \<not> (rin = 0 \<or> rout = 0 \<or> rin + ain = 0 \<or> rin + py_int (real_of_int ain * (1 - fee)) = 0))"
  by (auto simp add: calculate_swap_amounts_def Let_def)

text \<open>
  Claim C8: for \<open>reserveIn > 0\<close>, \<open>reserveOut > 0\<close>, \<open>amountIn > 0\<close> and a fee rate in
  \<open>[0, 1)\<close> the quote returns, its \<open>amountOut\<close> is strictly less than \<open>reserveOut\<close> and its
  price impact is not negative.
\<close>

theorem pricing_invariant:
  assumes "0 < rin" "0 < rout" "0 < ain" "0 \<le> fee" "fee < 1"
  shows "\<exists>ao imp. calculate_swap_amounts rin rout ain fee = Inr (ao, imp) \<and> ao < rout \<and> 0 \<le> imp"
proof -
  have e: "0 \<le> py_int (real_of_int ain * (1 - fee))"
    using assms by (intro py_int_nonneg_ge) simp
  have lt: "(rout * py_int (real_of_int ain * (1 - fee)))
              div (rin + py_int (real_of_int ain * (1 - fee))) < rout"
    using assms e by (intro amount_out_less)
  show ?thesis
    unfolding calculate_swap_amounts_def Let_def
    using assms e lt by auto
qed

theorem pricing_invariant_witness:
  "(0::int) < 1000000 \<and> (0::int) < 1000 \<and> (0::real) \<le> 25 / 10000 \<and> (25 / 10000 :: real) < 1 \<and>
   (\<exists>ao imp. calculate_swap_amounts 1000000 1000000 1000 (25 / 10000) = Inr (ao, imp) \<and>
      ao < 1000000 \<and> 0 \<le> imp)"
  using pricing_invariant [of 1000000 1000000 1000 "25 / 10000"] by simp

section \<open>The bracket\<close>

text \<open>
  Claim C1: \<open>build_sandwich_transactions\<close> simulates the bracket in three chained steps.
  Its result is determined by \<open>chained_bracket\<close> at the front-run size the builder
  chooses: the front-run on the original reserves, the target trade on the once-updated
  reserves, the back-run, sized as the output the front-run acquired, on the twice-updated
  reserves in the opposite direction.  An exception of one of the three quotes is the
  exception of the builder; otherwise the profit ratio and both legs are computed from the
  three outputs.
\<close>

theorem bracket_three_chained_steps:
  "build_sandwich_transactions self tx pool tin tout rin rout tgt bh =
     (case chained_bracket rin rout (min (tgt div 4) (rin div 100)) tgt of
        Inl e \<Rightarrow> Inl e
      | Inr (acquired, targetOut, backOut) \<Rightarrow>
          (let frontRun = min (tgt div 4) (rin div 100);
               ratio = (if 0 < frontRun
                        then real_of_int (backOut - frontRun) / real_of_int frontRun else 0)
           in if ratio < 1 / 100 then Inr (None, None, 0)
              else Inr (build_raydium_swap self pool tin tout frontRun
                          (py_int (real_of_int acquired * (98 / 100))) bh,
                        build_raydium_swap self pool tout tin acquired
                          (py_int (real_of_int backOut * (98 / 100))) bh,
                        ratio)))"
  unfolding build_sandwich_transactions_def chained_bracket_def Let_def
  by (simp split: sum.split prod.split)

text \<open>
  Claim C7: when the three chained steps yield a profit ratio (the profit divided by the
  front-run amount) below 1 percent, the builder returns no transaction and the ratio
  \<open>0.0\<close>; a leg is built only when the ratio is at least 1 percent, and then, for a
  positive front-run amount, both legs are the swaps built from the computed amounts.
\<close>

theorem unprofitable_bracket_rejected:
  assumes ch: "chained_bracket rin rout frontRun tgt = Inr (acquired, targetOut, backOut)"
    and fr: "frontRun = min (tgt div 4) (rin div 100)"
    and ra: "ratio = real_of_int (backOut - frontRun) / real_of_int frontRun"
  shows "\<exists>ftx btx p.
      build_sandwich_transactions self tx pool tin tout rin rout tgt bh = Inr (ftx, btx, p) \<and>
      (ratio < 1 / 100 \<longrightarrow> ftx = None \<and> btx = None \<and> p = 0) \<and>
      (ftx \<noteq> None \<or> btx \<noteq> None \<longrightarrow> 1 / 100 \<le> ratio \<and> p = ratio) \<and>
      (1 / 100 \<le> ratio \<and> 0 < frontRun \<longrightarrow>
         ftx = build_raydium_swap self pool tin tout frontRun
                 (py_int (real_of_int acquired * (98 / 100))) bh \<and>
         btx = build_raydium_swap self pool tout tin acquired
                 (py_int (real_of_int backOut * (98 / 100))) bh \<and>
         p = ratio)"
proof -
  obtain i1 where s1:
    "calculate_swap_amounts rin rout frontRun default_fee_rate = Inr (acquired, i1)"
    using ch unfolding chained_bracket_def
    by (auto split: sum.splits prod.splits)
  obtain i2 where s2:
    "calculate_swap_amounts (rin + frontRun) (rout - acquired) tgt default_fee_rate =
       Inr (targetOut, i2)"
    using ch s1 unfolding chained_bracket_def
    by (auto split: sum.splits prod.splits)
  obtain i3 where s3:
    "calculate_swap_amounts (rout - acquired - targetOut) (rin + frontRun + tgt) acquired
       default_fee_rate = Inr (backOut, i3)"
    using ch s1 s2 unfolding chained_bracket_def
    by (auto split: sum.splits prod.splits)
  show ?thesis
    unfolding build_sandwich_transactions_def Let_def fr [symmetric]
    using s1 s2 s3 ra by auto
qed

theorem unprofitable_bracket_rejected_witness:
  "chained_bracket 1000000 1000000 1250 5000 = Inr (1244, 4949, 1253) \<and>
   (1250::int) = min (5000 div 4) (1000000 div 100) \<and>
   real_of_int (1253 - 1250) / real_of_int 1250 < 1 / 100 \<and>
   build_sandwich_transactions (init_builder ''wallet'') ''target'' ''pool'' ''SOL'' ''USDC''
     1000000 1000000 5000 ''blockhash'' = Inr (None, None, 0) \<and>
   chained_bracket 100000 100000 1000 40000 = Inr (987, 28038, 1928) \<and>
   (1000::int) = min (40000 div 4) (100000 div 100) \<and>
   1 / 100 \<le> real_of_int (1928 - 1000) / real_of_int 1000 \<and>
   build_sandwich_transactions (init_builder ''wallet'') ''target'' ''pool'' ''SOL'' ''USDC''
     100000 100000 40000 ''blockhash'' =
     Inr (build_raydium_swap (init_builder ''wallet'') ''pool'' ''SOL'' ''USDC'' 1000 967
            ''blockhash'',
          build_raydium_swap (init_builder ''wallet'') ''pool'' ''USDC'' ''SOL'' 987 1889
            ''blockhash'',
          928 / 1000)"
proof -
  have c1: "chained_bracket 1000000 1000000 1250 5000 = Inr (1244, 4949, 1253)"
    by (simp add: chained_bracket_def calculate_swap_amounts_def default_fee_rate_def
          py_int_def Let_def)
  have c2: "chained_bracket 100000 100000 1000 40000 = Inr (987, 28038, 1928)"
    by (simp add: chained_bracket_def calculate_swap_amounts_def default_fee_rate_def
          py_int_def Let_def)
  have f1: "(1250::int) = min (5000 div 4) (1000000 div 100)" by simp
  have f2: "(1000::int) = min (40000 div 4) (100000 div 100)" by simp
  from unprofitable_bracket_rejected [OF c1 f1 refl, of "init_builder ''wallet''" "''target''"
      "''pool''" "''SOL''" "''USDC''" "''blockhash''"]
  have r1: "build_sandwich_transactions (init_builder ''wallet'') ''target'' ''pool'' ''SOL''
      ''USDC'' 1000000 1000000 5000 ''blockhash'' = Inr (None, None, 0)"
    by auto
  from unprofitable_bracket_rejected [OF c2 f2 refl, of "init_builder ''wallet''" "''target''"
      "''pool''" "''SOL''" "''USDC''" "''blockhash''"]
  have r2: "build_sandwich_transactions (init_builder ''wallet'') ''target'' ''pool'' ''SOL''
      ''USDC'' 100000 100000 40000 ''blockhash'' =
     Inr (build_raydium_swap (init_builder ''wallet'') ''pool'' ''SOL'' ''USDC'' 1000 967
            ''blockhash'',
          build_raydium_swap (init_builder ''wallet'') ''pool'' ''USDC'' ''SOL'' 987 1889
            ''blockhash'',
          928 / 1000)"
    by (auto simp add: py_int_def)
  show ?thesis using c1 c2 r1 r2 by simp
qed

section \<open>The statistics of the engine\<close>

text \<open>
  The simulated execution counts the attempt once, whatever its outcome, and so does the
  execution on the mempool path.  The placeholder of the real execution returns a failed
  result and leaves the engine, its statistics included, as it was.
\<close>

lemma simulated_execution_counts_once:
  "sandwiches_attempted (stats (snd (simulate_sandwich_execution self opp start_time now r1 r2))) =
     sandwiches_attempted (stats self) + 1"
  by (simp add: simulate_sandwich_execution_def Let_def)

lemma mempool_execution_counts_once:
  "sandwiches_attempted
     (stats (snd (execute_simulated_sandwich settings self ps ep t0 t1 t2 t3 r1 r2))) =
     sandwiches_attempted (stats self) + 1"
  by (simp add: execute_simulated_sandwich_def Let_def)

lemma real_execution_counts_nothing:
  "snd (execute_real_sandwich self opp start_time now) = self \<and>
   \<not> success (fst (execute_real_sandwich self opp start_time now))"
  by (simp add: execute_real_sandwich_def)

lemma dry_run_session_attempted:
  "DRY_RUN settings \<Longrightarrow>
   sandwiches_attempted (stats (snd (execute_all settings self runs))) =
     sandwiches_attempted (stats self) + int (length runs)"
proof (induction runs arbitrary: self)
  case Nil
  then show ?case by simp
next
  case (Cons run runs)
  obtain opp start_time now r1 r2 where run: "run = (opp, start_time, now, r1, r2)"
    by (cases run) auto
  obtain res self1 where ex: "execute_sandwich settings self opp start_time now r1 r2 = (res, self1)"
    by (cases "execute_sandwich settings self opp start_time now r1 r2") auto
  have "sandwiches_attempted (stats self1) = sandwiches_attempted (stats self) + 1"
    using ex Cons.prems simulated_execution_counts_once [of self opp start_time now r1 r2]
    by (simp add: execute_sandwich_def)
  then show ?case
    using Cons.IH [OF Cons.prems, of self1] ex run
    by (simp add: split_beta)
qed

lemma real_session_attempted:
  "\<not> DRY_RUN settings \<Longrightarrow> snd (execute_all settings self runs) = self"
proof (induction runs arbitrary: self)
  case Nil
  then show ?case by simp
next
  case (Cons run runs)
  obtain opp start_time now r1 r2 where run: "run = (opp, start_time, now, r1, r2)"
    by (cases run) auto
  show ?case
    using Cons.IH [OF Cons.prems, of self] Cons.prems run
    by (simp add: execute_sandwich_def execute_real_sandwich_def split_beta)
qed

text \<open>
  Claim C3 says that every executed attempt, in simulated or in real mode and whatever
  its outcome, increments the \<open>attempted\<close> counter exactly once.  With \<open>DRY_RUN\<close> off,
  \<open>execute_sandwich\<close> on a fresh engine returns a failed result and the counter is still
  0: the attempt is not counted.
\<close>

theorem real_mode_attempt_not_counted:
  "sandwiches_attempted
     (stats (snd (execute_sandwich (default_settings\<lparr>DRY_RUN := False\<rparr>)
        (init_engine (default_settings\<lparr>DRY_RUN := False\<rparr>))
        \<lparr>pool_info = Some mock_sol_usdc_pool, target_transaction = ''simulated_tx_1000'',
          estimated_profit = 4 / 10, front_run_amount = 1000, back_run_amount = 1000,
          gas_cost = 1 / 1000, confidence_score = 50\<rparr>
        1000 1001 (1 / 2) (1 / 2)))) = 0 \<and>
   \<not> success (fst (execute_sandwich (default_settings\<lparr>DRY_RUN := False\<rparr>)
        (init_engine (default_settings\<lparr>DRY_RUN := False\<rparr>))
        \<lparr>pool_info = Some mock_sol_usdc_pool, target_transaction = ''simulated_tx_1000'',
          estimated_profit = 4 / 10, front_run_amount = 1000, back_run_amount = 1000,
          gas_cost = 1 / 1000, confidence_score = 50\<rparr>
        1000 1001 (1 / 2) (1 / 2)))"
  by (simp add: execute_sandwich_def execute_real_sandwich_def default_settings_def init_engine_def)

section \<open>The sizing of the front-run\<close>

text \<open>
  Claim C4, as the specification states it: every opportunity the engine produces, on any
  detection path, has a front-run amount of at most
  \<open>min (pool.liquidity * sizingFraction) maxPositionSize\<close>.  On the mempool path the
  opportunity has no pool, and its front-run amount is a quarter of the pending swap's
  amount: for a swap of 8 under the default settings it is 2, above the maximum
  position size of 1.
\<close>

theorem mempool_sizing_counterexample:
  "pool_info (opportunity (the (fst (handle_real_opportunity default_settings
      (init_engine default_settings)
      \<lparr>signature = ''sim_1000_1000'', user_wallet = ''user_1000'', token_in = ''SOL'',
        token_out = ''USDC'', amount_in = 8, pool_address = ''pool_SOL_USDC'',
        estimated_price_impact = 3 / 100, timestamp = 1\<rparr> 1 2 3 4 (1 / 2) (1 / 2))))) = None \<and>
   front_run_amount (opportunity (the (fst (handle_real_opportunity default_settings
      (init_engine default_settings)
      \<lparr>signature = ''sim_1000_1000'', user_wallet = ''user_1000'', token_in = ''SOL'',
        token_out = ''USDC'', amount_in = 8, pool_address = ''pool_SOL_USDC'',
        estimated_price_impact = 3 / 100, timestamp = 1\<rparr> 1 2 3 4 (1 / 2) (1 / 2))))) = 2 \<and>
   max_position_size (init_engine default_settings) = 1 \<and>
   \<not> (2 \<le> max_position_size (init_engine default_settings))"
  by (simp add: handle_real_opportunity_def execute_simulated_sandwich_def default_settings_def
        init_engine_def Let_def)

text \<open>
  Claim C4, amended: every opportunity of the pool-scanning path (\<open>_simulate_opportunity\<close>)
  is for the scanned pool and has a front-run amount of at most
  \<open>min (pool.liquidity * 0.001) maxPositionSize\<close>; the opportunity that the mempool path
  builds (\<open>_execute_simulated_sandwich\<close>) has no pool and the front-run amount
  \<open>0.25 * amountIn\<close> of the pending swap.
\<close>

theorem sizing_by_path:
  "(simulate_opportunity self pool now = Some opp \<longrightarrow>
      pool_info opp = Some pool \<and>
      front_run_amount opp \<le> min (liquidity pool * (1 / 1000)) (max_position_size self)) \<and>
   pool_info (opportunity (fst (execute_simulated_sandwich settings self ps ep t0 t1 t2 t3 r1 r2)))
     = None \<and>
   front_run_amount
     (opportunity (fst (execute_simulated_sandwich settings self ps ep t0 t1 t2 t3 r1 r2)))
     = amount_in ps * (25 / 100)"
  by (auto simp add: simulate_opportunity_def execute_simulated_sandwich_def Let_def
        split: if_splits)

theorem sizing_by_path_witness:
  "simulate_opportunity (init_engine (default_settings\<lparr>MAX_POSITION_SIZE := 1000\<rparr>))
      mock_sol_usdc_pool 1000 =
     Some \<lparr>pool_info = Some mock_sol_usdc_pool, target_transaction = ''simulated_tx_1000'',
           estimated_profit = 4 / 10, front_run_amount = 1000, back_run_amount = 1000,
           gas_cost = 1 / 1000, confidence_score = 50\<rparr> \<and>
   (1000::real) \<le> min (liquidity mock_sol_usdc_pool * (1 / 1000))
      (max_position_size (init_engine (default_settings\<lparr>MAX_POSITION_SIZE := 1000\<rparr>)))"
proof -
  have h: "simulate_opportunity (init_engine (default_settings\<lparr>MAX_POSITION_SIZE := 1000\<rparr>))
      mock_sol_usdc_pool 1000 =
     Some \<lparr>pool_info = Some mock_sol_usdc_pool, target_transaction = ''simulated_tx_1000'',
           estimated_profit = 4 / 10, front_run_amount = 1000, back_run_amount = 1000,
           gas_cost = 1 / 1000, confidence_score = 50\<rparr>"
    by (simp add: simulate_opportunity_def init_engine_def default_settings_def
          mock_sol_usdc_pool_def Let_def str_int_def py_int_def str_nat.simps digit_char_def)
  show ?thesis
    using h sizing_by_path [of "init_engine (default_settings\<lparr>MAX_POSITION_SIZE := 1000\<rparr>)"
        mock_sol_usdc_pool 1000
        "\<lparr>pool_info = Some mock_sol_usdc_pool, target_transaction = ''simulated_tx_1000'',
          estimated_profit = 4 / 10, front_run_amount = 1000, back_run_amount = 1000,
          gas_cost = 1 / 1000, confidence_score = 50\<rparr>"]
    by simp
qed

section \<open>The evaluation and the clock\<close>

text \<open>
  Claim C5, as the specification states it: evaluating the same input twice yields
  opportunities with identical fields.  \<open>_simulate_opportunity\<close> reads the clock: the
  same engine and the same pool, evaluated at second 1000 and at second 1001, give two
  different opportunities.
\<close>

theorem evaluation_reads_clock_counterexample:
  "simulate_opportunity (init_engine (default_settings\<lparr>MAX_POSITION_SIZE := 1000\<rparr>))
      mock_sol_usdc_pool 1000 \<noteq>
   simulate_opportunity (init_engine (default_settings\<lparr>MAX_POSITION_SIZE := 1000\<rparr>))
      mock_sol_usdc_pool 1001"
  by (simp add: simulate_opportunity_def init_engine_def default_settings_def mock_sol_usdc_pool_def
       Let_def str_int_def py_int_def str_nat.simps digit_char_def)

text \<open>
  Claim C5, amended: two evaluations of the same pool by the same engine agree on whether
  an opportunity is returned and on every field of it except \<open>target_transaction\<close>, which
  depends on the time at which the evaluation runs; on the mempool path the opportunity
  built for a pending swap has the same fields in every run, whatever the settings, the
  engine's statistics, the clock and the random draws.
\<close>

theorem evaluation_deterministic_up_to_clock:
  "map_option (\<lambda>opp. opp\<lparr>target_transaction := []\<rparr>) (simulate_opportunity self pool now1) =
   map_option (\<lambda>opp. opp\<lparr>target_transaction := []\<rparr>) (simulate_opportunity self pool now2) \<and>
   map_option opportunity (fst (handle_real_opportunity settings1 self1 ps t0 t1 t2 t3 r1 r2)) =
   map_option opportunity (fst (handle_real_opportunity settings2 self2 ps u0 u1 u2 u3 q1 q2))"
  by (simp add: simulate_opportunity_def handle_real_opportunity_def
        execute_simulated_sandwich_def Let_def)

section \<open>The balance query\<close>

text \<open>
  Claim C10: when the balance query of the wrapped client raises, \<open>get_balance\<close> returns
  \<open>0.0\<close>, which is also its answer for an account that holds no lamports.
\<close>

theorem get_balance_swallows_errors:
  assumes "client pk = Inl e"
  shows "get_balance client pk = 0 \<and>
         get_balance client pk = get_balance (client (pk := Inr 0)) pk"
  using assms by (simp add: get_balance_def)

theorem get_balance_swallows_errors_witness:
  "get_balance (\<lambda>pk. Inl ''connection refused'') ''11111111111111111111111111111111'' = 0 \<and>
   get_balance (\<lambda>pk. Inl ''connection refused'') ''11111111111111111111111111111111'' =
   get_balance ((\<lambda>pk. Inl ''connection refused'') (''11111111111111111111111111111111'' := Inr 0))
     ''11111111111111111111111111111111''"
  using get_balance_swallows_errors [of "\<lambda>pk. Inl ''connection refused''"
      "''11111111111111111111111111111111''" "''connection refused''"]
  by simp

end
